theory Spec2Isabelle
  imports Main "HOL-Library.AList" "HOL-Library.Multiset"
begin

section \<open>Data model of package moira\<close>

text \<open>
  The structs of the data-model file are records. Several structs share field names
  (\<open>State\<close>, \<open>Timestamp\<close>, \<open>Enabled\<close>, ...); a record field is a constant of the
  theory, so every field carries a short prefix naming its struct:
  \<open>ev_\<close> NotificationEvent, \<open>sub_\<close> SubscriptionData, \<open>pl_\<close> PlottingData,
  \<open>sd_\<close> ScheduleData, \<open>day_\<close> ScheduleDataDay, \<open>ms_\<close> MetricState,
  \<open>cd_\<close> CheckData.

  Go's \<open>int\<close> and \<open>int64\<close> are integers of 64 bits. They are modelled by \<open>int\<close>, and
  every arithmetic operation of the source that can leave the 64-bit range is wrapped
  by \<open>wrap64\<close>. A \<open>float64\<close> that is only stored is a value of an uninterpreted type.
\<close>

typedecl float64

definition int64 :: "int \<Rightarrow> bool" where
  "int64 x = (- (2 ^ 63) \<le> x \<and> x < 2 ^ 63)"

definition wrap64 :: "int \<Rightarrow> int" where
  "wrap64 x = (x + 2 ^ 63) mod 2 ^ 64 - 2 ^ 63"

text \<open>Go's \<open>%\<close> truncates towards zero: the remainder has the sign of the dividend.\<close>

definition go_rem :: "int \<Rightarrow> int \<Rightarrow> int" where
  "go_rem x y = sgn x * (\<bar>x\<bar> mod \<bar>y\<bar>)"

record NotificationEvent =
  ev_IsTriggerEvent :: bool
  ev_Timestamp :: int
  ev_Metric :: string
  ev_Value :: "float64 option"
  ev_State :: string
  ev_TriggerID :: string
  ev_SubscriptionID :: "string option"
  ev_ContactID :: string
  ev_OldState :: string
  ev_Message :: "string option"

type_synonym NotificationEvents = "NotificationEvent list"

record PlottingData =
  pl_Enabled :: bool
  pl_Theme :: string

record ScheduleDataDay =
  day_Enabled :: bool
  day_Name :: string

record ScheduleData =
  sd_Days :: "ScheduleDataDay list"
  sd_TimezoneOffset :: int
  sd_StartOffset :: int
  sd_EndOffset :: int

record SubscriptionData =
  sub_Contacts :: "string list"
  sub_Tags :: "string list"
  sub_Schedule :: ScheduleData
  sub_Plotting :: PlottingData
  sub_ID :: string
  sub_Enabled :: bool
  sub_IgnoreWarnings :: bool
  sub_IgnoreRecoverings :: bool
  sub_ThrottlingEnabled :: bool
  sub_User :: string

record MetricState =
  ms_EventTimestamp :: int
  ms_State :: string
  ms_Suppressed :: bool
  ms_SuppressedState :: string
  ms_Timestamp :: int
  ms_Value :: "float64 option"
  ms_Maintenance :: int

text \<open>
  A Go map is either \<open>nil\<close> or allocated. Reading a \<open>nil\<close> map behaves like reading an
  empty one, writing to it panics. An allocated map is an association list with the
  keys in some order (Go fixes none); \<open>map_of\<close> is the lookup.
\<close>

type_synonym metrics_map = "(string \<times> MetricState) list option"

record CheckData =
  cd_Metrics :: metrics_map
  cd_Score :: int
  cd_State :: string
  cd_Maintenance :: int
  cd_Timestamp :: int
  cd_EventTimestamp :: int
  cd_LastSuccessfulCheckTimestamp :: int
  cd_Suppressed :: bool
  cd_SuppressedState :: string
  cd_Message :: string

datatype go_panic = IndexOutOfRange | AssignmentToNilMap | MakesliceCapOutOfRange

section \<open>The lookup tables\<close>

definition eventStates :: "string list" where
  "eventStates = [''OK'', ''WARN'', ''ERROR'', ''NODATA'', ''EXCEPTION'', ''TEST'']"

definition scores :: "string \<rightharpoonup> int" where
  "scores = map_of [(''OK'', 0), (''DEL'', 0), (''WARN'', 1), (''ERROR'', 100),
                    (''NODATA'', 1000), (''EXCEPTION'', 100000)]"

definition eventStateWeight :: "string \<rightharpoonup> int" where
  "eventStateWeight = map_of [(''OK'', 0), (''WARN'', 1), (''ERROR'', 100), (''NODATA'', 10000)]"

section \<open>MustIgnore\<close>

text \<open>
  The two-value lookups \<open>w, ok := eventStateWeight[k]\<close> are the \<open>case\<close> on the map's
  result. The weights are at most 10000, so \<open>delta\<close> cannot overflow.
\<close>

definition MustIgnore :: "SubscriptionData \<Rightarrow> NotificationEvent \<Rightarrow> bool" where
  "MustIgnore subscription eventData =
     (case eventStateWeight (ev_OldState eventData) of
        None \<Rightarrow> False
      | Some oldStateWeight \<Rightarrow>
          (case eventStateWeight (ev_State eventData) of
             None \<Rightarrow> False
           | Some newStateWeight \<Rightarrow>
               (let delta = newStateWeight - oldStateWeight in
                if delta < 0 then
                  (if delta = - 1 \<and>
                      (sub_IgnoreRecoverings subscription \<or> sub_IgnoreWarnings subscription)
                   then True
                   else sub_IgnoreRecoverings subscription)
                else if delta = 1 then sub_IgnoreWarnings subscription
                else False)))"

text \<open>The weight of a state as the specification words it, on the four states it names.\<close>

definition transition_weight :: "string \<Rightarrow> int" where
  "transition_weight s =
     (if s = ''OK'' then 0 else if s = ''WARN'' then 1 else if s = ''ERROR'' then 100
      else if s = ''NODATA'' then 10000 else 0)"

definition weighted_states :: "string set" where
  "weighted_states = {''OK'', ''WARN'', ''ERROR'', ''NODATA''}"

section \<open>GetSubjectState\<close>

text \<open>
  \<open>states\<close> is a \<open>map[string]bool\<close> filled from the events; reading a key that is
  absent gives \<open>false\<close>. The second loop runs over the array \<open>eventStates\<close> in order
  and keeps the last state that is present.
\<close>

definition mark_states :: "NotificationEvents \<Rightarrow> (string \<rightharpoonup> bool)" where
  "mark_states events = fold (\<lambda>event states. states(ev_State event \<mapsto> True)) events Map.empty"

definition index_bool :: "(string \<rightharpoonup> bool) \<Rightarrow> string \<Rightarrow> bool" where
  "index_bool states k = (case states k of None \<Rightarrow> False | Some b \<Rightarrow> b)"

definition GetSubjectState :: "NotificationEvents \<Rightarrow> string" where
  "GetSubjectState events =
     (let states = mark_states events in
      fold (\<lambda>state result. if index_bool states state then state else result) eventStates [])"

text \<open>The position of a state in \<open>eventStates\<close> (6 for a state that is not in it).\<close>

fun position :: "string \<Rightarrow> string list \<Rightarrow> nat" where
  "position s [] = 0"
| "position s (x # xs) = (if s = x then 0 else Suc (position s xs))"

definition state_rank :: "string \<Rightarrow> nat" where
  "state_rank s = position s eventStates"

section \<open>IsScheduleAllows\<close>

text \<open>
  A \<open>time.Time\<close> is modelled by the instant it denotes, as the number of nanoseconds
  since the Unix epoch; \<open>Before\<close>, \<open>After\<close> and \<open>Equal\<close> compare instants, \<open>Add\<close> adds a
  \<open>Duration\<close> (an \<open>int64\<close> of nanoseconds). \<open>Weekday\<close> of a UTC time is taken from the
  day number (1 January 1970 was a Thursday), Sunday being 0. Instants are unbounded
  integers here; Go's \<open>Time\<close> holds an \<open>int64\<close> of seconds counted from the year 1, so
  the model is exact for the timestamps whose seconds are more than \<open>2^37\<close> away from
  the ends of the \<open>int64\<close> range.
\<close>

type_synonym Time = int

definition Unix :: "int \<Rightarrow> Time" where
  "Unix sec = sec * 1000000000"

definition Weekday :: "int \<Rightarrow> int" where
  "Weekday sec = (sec div 86400 + 4) mod 7"

definition Minute :: int where
  "Minute = 60000000000"

definition Hour :: int where
  "Hour = 3600000000000"

text \<open>Line 246 of the source: the timestamp cut to the minute and shifted by the timezone.\<close>

definition shifted_timestamp :: "ScheduleData \<Rightarrow> int \<Rightarrow> int" where
  "shifted_timestamp schedule ts =
     wrap64 (wrap64 (ts - go_rem ts 60) - wrap64 (sd_TimezoneOffset schedule * 60))"

text \<open>The index into \<open>Days\<close>: \<open>int(date.Weekday()+6)%7\<close>, Monday being 0.\<close>

definition day_index :: "int \<Rightarrow> nat" where
  "day_index timestamp = nat (go_rem (Weekday timestamp + 6) 7)"

definition IsScheduleAllows :: "ScheduleData option \<Rightarrow> int \<Rightarrow> go_panic + bool" where
  "IsScheduleAllows schedule ts =
     (case schedule of
        None \<Rightarrow> Inr True
      | Some sched \<Rightarrow>
          (let startOffset = sd_StartOffset sched;
               endOffset = (if sd_EndOffset sched < sd_StartOffset sched
                            then wrap64 (sd_EndOffset sched + 24 * 60)
                            else sd_EndOffset sched);
               timestamp = shifted_timestamp sched ts;
               date = Unix timestamp
           in if length (sd_Days sched) \<le> day_index timestamp then Inl IndexOutOfRange
              else if \<not> day_Enabled (sd_Days sched ! day_index timestamp) then Inr False
              else
                (let dayStart = Unix (wrap64 (timestamp - go_rem timestamp (24 * 3600)));
                     startDayTime = dayStart + wrap64 (startOffset * Minute);
                     endDayTime = dayStart + wrap64 (endOffset * Minute)
                 in if endOffset < 24 * 60 then
                      (if (startDayTime < date \<or> date = startDayTime) \<and>
                          (date < endDayTime \<or> date = endDayTime)
                       then Inr True else Inr False)
                    else
                      (let endDayTime' = endDayTime + wrap64 (- Hour * 24)
                       in if date < endDayTime' \<or> startDayTime < date
                          then Inr True else Inr False))))"

section \<open>GetOrCreateMetricState\<close>

definition index_metrics :: "metrics_map \<Rightarrow> string \<Rightarrow> MetricState option" where
  "index_metrics m k = (case m of None \<Rightarrow> None | Some kvs \<Rightarrow> map_of kvs k)"

definition assign_metrics :: "metrics_map \<Rightarrow> string \<Rightarrow> MetricState \<Rightarrow> go_panic + metrics_map" where
  "assign_metrics m k v =
     (case m of None \<Rightarrow> Inl AssignmentToNilMap | Some kvs \<Rightarrow> Inr (Some (AList.update k v kvs)))"

text \<open>The zero value of the struct, which a composite literal starts from.\<close>

definition zero_MetricState :: MetricState where
  "zero_MetricState =
     \<lparr>ms_EventTimestamp = 0, ms_State = [], ms_Suppressed = False, ms_SuppressedState = [],
      ms_Timestamp = 0, ms_Value = None, ms_Maintenance = 0\<rparr>"

text \<open>
  \<open>unixNow\<close> is what \<open>time.Now().Unix()\<close> returns at the call: the wall clock is an
  input of the model.
\<close>

definition createEmptyMetricState :: "int \<Rightarrow> int \<Rightarrow> bool \<Rightarrow> MetricState" where
  "createEmptyMetricState unixNow defaultTimestampValue firstStateIsNodata =
     (if firstStateIsNodata
      then zero_MetricState\<lparr>ms_State := ''NODATA'', ms_Timestamp := defaultTimestampValue\<rparr>
      else zero_MetricState\<lparr>ms_State := ''OK'', ms_Timestamp := unixNow,
                             ms_EventTimestamp := unixNow\<rparr>)"

definition GetOrCreateMetricState ::
  "int \<Rightarrow> CheckData \<Rightarrow> string \<Rightarrow> int \<Rightarrow> bool \<Rightarrow> go_panic + (CheckData \<times> MetricState)" where
  "GetOrCreateMetricState unixNow checkData metric emptyTimestampValue muteNewMetric =
     (let ok = (index_metrics (cd_Metrics checkData) metric \<noteq> None);
          stored =
            (if \<not> ok
             then (case assign_metrics (cd_Metrics checkData) metric
                          (createEmptyMetricState unixNow emptyTimestampValue (\<not> muteNewMetric)) of
                     Inl p \<Rightarrow> Inl p
                   | Inr m \<Rightarrow> Inr (checkData\<lparr>cd_Metrics := m\<rparr>))
             else Inr checkData)
      in case stored of
           Inl p \<Rightarrow> Inl p
         | Inr checkData' \<Rightarrow>
             Inr (checkData',
                  (case index_metrics (cd_Metrics checkData') metric of
                     None \<Rightarrow> zero_MetricState
                   | Some st \<Rightarrow> st)))"

section \<open>GetCheckPoint\<close>

text \<open>
  \<open>float64(x)\<close> of an \<open>int64\<close> rounds to 53 significant bits, ties to even. Every such
  float is an integer, so it is modelled by its value. \<open>ulp a\<close> is the spacing of the
  floats around \<open>a \<ge> 0\<close>. \<open>math.Max\<close> of two such floats is the larger one. Converting
  a float outside the \<open>int64\<close> range back to \<open>int64\<close> succeeds in Go, with a value
  that the language leaves to the implementation (the smallest \<open>int64\<close> on amd64):
  \<open>None\<close> stands for that unspecified value.
\<close>

function ulp :: "int \<Rightarrow> int" where
  "ulp a = (if a < 2 ^ 53 then 1 else 2 * ulp (a div 2))"
  by pat_completeness auto
termination
  by (relation "measure nat") auto

declare ulp.simps [simp del]

definition round_half_even :: "int \<Rightarrow> int \<Rightarrow> int" where
  "round_half_even u a =
     (let q = a div u; r = a mod u
      in if 2 * r < u \<or> (2 * r = u \<and> even q) then q * u else (q + 1) * u)"

definition float64_of_int64 :: "int \<Rightarrow> int" where
  "float64_of_int64 x = sgn x * round_half_even (ulp \<bar>x\<bar>) \<bar>x\<bar>"

definition int64_of_float64 :: "int \<Rightarrow> int option" where
  "int64_of_float64 f = (if int64 f then Some f else None)"

definition GetCheckPoint :: "MetricState \<Rightarrow> int \<Rightarrow> int option" where
  "GetCheckPoint metricState checkPointGap =
     int64_of_float64
       (max (float64_of_int64 (wrap64 (ms_Timestamp metricState - checkPointGap)))
            (float64_of_int64 (ms_EventTimestamp metricState)))"

section \<open>UpdateScore\<close>

definition index_scores :: "string \<Rightarrow> int" where
  "index_scores k = (case scores k of None \<Rightarrow> 0 | Some v \<Rightarrow> v)"

definition range_metrics :: "metrics_map \<Rightarrow> MetricState list" where
  "range_metrics m = (case m of None \<Rightarrow> [] | Some kvs \<Rightarrow> map snd kvs)"

definition UpdateScore :: "CheckData \<Rightarrow> CheckData \<times> int" where
  "UpdateScore checkData =
     (let score = fold (\<lambda>metricData score. wrap64 (score + index_scores (ms_State metricData)))
                       (range_metrics (cd_Metrics checkData))
                       (index_scores (cd_State checkData))
      in (checkData\<lparr>cd_Score := score\<rparr>, score))"

text \<open>The weight of a state as the specification lists it.\<close>

definition score_weight :: "string \<Rightarrow> int" where
  "score_weight s =
     (if s = ''OK'' then 0 else if s = ''DEL'' then 0 else if s = ''WARN'' then 1
      else if s = ''ERROR'' then 100 else if s = ''NODATA'' then 1000
      else if s = ''EXCEPTION'' then 100000 else 0)"

section \<open>Search of the trigger index\<close>

text \<open>
  \<open>TriggerIndex.Search\<close> works on a bleve index. What the function uses of the index
  is a record: the count that \<open>DocCount\<close> returns (its error is discarded by the
  source) and the index's own \<open>Search\<close>, a function from a request to an error or a
  result. The query that \<open>buildSearchQuery\<close> builds is kept as the three values it is
  built from. The names of the index fields (\<open>mapping.TriggerName.String()\<close> and the
  like) and \<open>strings.Fields\<close> come from outside the file and are parameters, collected
  in a record. The result type \<open>moira.TriggerSearchResult\<close> has the fields the function
  assigns.
\<close>

record Externals =
  ext_TriggerName :: string
  ext_TriggerDesc :: string
  ext_TriggerLastCheckScore :: string
  ext_Fields :: "string \<Rightarrow> string list"

record SearchQuery =
  q_filterTags :: "string list"
  q_searchTerms :: "string list"
  q_onlyErrors :: bool

record SearchRequest =
  req_Query :: SearchQuery
  req_Size :: int
  req_From :: int
  req_Explain :: bool
  req_Sort :: "string list"
  req_Highlight :: bool

record DocumentMatch =
  hit_ID :: string
  hit_Fragments :: "string \<rightharpoonup> string list"

record SearchResult =
  sr_Total :: nat
  sr_Hits :: "DocumentMatch list"

record TriggerIndex =
  idx_DocCount :: nat
  idx_Search :: "SearchRequest \<Rightarrow> string + SearchResult"

record HighLights =
  hl_Name :: string
  hl_Desc :: string

record TriggerSearchResult =
  tsr_TriggerID :: string
  tsr_HighLights :: HighLights

text \<open>The characters of the class in \<open>escapeString\<close>; each becomes a space.\<close>

definition escaped_chars :: "char list" where
  "escaped_chars = ''|+-=&<>!(){}[]^~*?/.,:;_@'' @ [CHR 0x22, CHR 0x27, CHR 0x5C]"

definition escapeString :: "string \<Rightarrow> string" where
  "escapeString original = map (\<lambda>c. if c \<in> set escaped_chars then CHR '' '' else c) original"

definition splitStringToTerms :: "Externals \<Rightarrow> string \<Rightarrow> string list" where
  "splitStringToTerms ext searchString = ext_Fields ext (escapeString searchString)"

definition buildSearchQuery :: "string list \<Rightarrow> string list \<Rightarrow> bool \<Rightarrow> SearchQuery" where
  "buildSearchQuery filterTags searchTerms onlyErrors =
     \<lparr>q_filterTags = filterTags, q_searchTerms = searchTerms, q_onlyErrors = onlyErrors\<rparr>"

definition search_sort :: "Externals \<Rightarrow> string list" where
  "search_sort ext = [''-'' @ ext_TriggerLastCheckScore ext, ''_score'', ext_TriggerName ext]"

definition buildSearchRequest ::
  "Externals \<Rightarrow> string list \<Rightarrow> string \<Rightarrow> bool \<Rightarrow> int \<Rightarrow> int \<Rightarrow> SearchRequest" where
  "buildSearchRequest ext filterTags searchString onlyErrors page sz =
     (let searchTerms = splitStringToTerms ext searchString;
          searchQuery = buildSearchQuery filterTags searchTerms onlyErrors;
          from = wrap64 (page * sz)
      in \<lparr>req_Query = searchQuery, req_Size = sz, req_From = from, req_Explain = False,
          req_Sort = search_sort ext, req_Highlight = True\<rparr>)"

text \<open>The body of the loop over the hits: the identifier and the joined fragments.\<close>

definition fragments_of :: "DocumentMatch \<Rightarrow> string \<Rightarrow> string" where
  "fragments_of result field =
     (case hit_Fragments result field of None \<Rightarrow> [] | Some fragments \<Rightarrow> concat fragments)"

definition hit_result :: "Externals \<Rightarrow> DocumentMatch \<Rightarrow> TriggerSearchResult" where
  "hit_result ext result =
     \<lparr>tsr_TriggerID = hit_ID result,
      tsr_HighLights = \<lparr>hl_Name = fragments_of result (ext_TriggerName ext),
                        hl_Desc = fragments_of result (ext_TriggerDesc ext)\<rparr>\<rparr>"

text \<open>
  The three results of the Go function are a triple, the error last. \<open>make\<close> with a
  negative capacity panics (the limit that memory puts on the capacity is not modelled).
  The parameter \<open>size\<close> is written \<open>sz\<close>, and the values that the first \<open>if\<close>
  assigns to \<open>page\<close> and \<open>size\<close> are \<open>page'\<close> and \<open>sz'\<close>.
\<close>

definition Search ::
  "Externals \<Rightarrow> TriggerIndex \<Rightarrow> string list \<Rightarrow> string \<Rightarrow> bool \<Rightarrow> int \<Rightarrow> int \<Rightarrow>
     go_panic + (TriggerSearchResult list \<times> int \<times> string option)" where
  "Search ext index filterTags searchString onlyErrors page sz =
     (let (page', sz') =
            (if sz < 0 then (0, wrap64 (int (idx_DocCount index))) else (page, sz));
          req = buildSearchRequest ext filterTags searchString onlyErrors page' sz'
      in case idx_Search index req of
           Inl err \<Rightarrow> Inr ([], 0, Some err)
         | Inr searchResult \<Rightarrow>
             (let total = wrap64 (int (sr_Total searchResult)) in
              if length (sr_Hits searchResult) = 0 then Inr ([], total, None)
              else if total < 0 then Inl MakesliceCapOutOfRange
              else Inr (map (hit_result ext) (sr_Hits searchResult), total, None)))"

text \<open>
  An index answers by pages when every request gets the number of all matching documents
  and the slice of \<open>Size\<close> of them from position \<open>From\<close>, in the order of the request's
  sort.
\<close>

definition paginated ::
  "TriggerIndex \<Rightarrow> (SearchQuery \<Rightarrow> string list \<Rightarrow> DocumentMatch list) \<Rightarrow> bool" where
  "paginated index matching =
     (\<forall>req. idx_Search index req =
        Inr \<lparr>sr_Total = length (matching (req_Query req) (req_Sort req)),
             sr_Hits = take (nat (req_Size req))
                         (drop (nat (req_From req)) (matching (req_Query req) (req_Sort req)))\<rparr>)"

section \<open>Concrete values\<close>

text \<open>Small values of the structs, on which the theorems below are instantiated.\<close>

definition example_event :: NotificationEvent where
  "example_event =
     \<lparr>ev_IsTriggerEvent = False, ev_Timestamp = 0, ev_Metric = ''m1'', ev_Value = None,
      ev_State = ''WARN'', ev_TriggerID = ''t1'', ev_SubscriptionID = None, ev_ContactID = [],
      ev_OldState = ''OK'', ev_Message = None\<rparr>"

definition all_days :: "ScheduleDataDay list" where
  "all_days = replicate 7 \<lparr>day_Enabled = True, day_Name = []\<rparr>"

definition night_schedule :: ScheduleData where
  "night_schedule =
     \<lparr>sd_Days = all_days, sd_TimezoneOffset = 0, sd_StartOffset = 1320, sd_EndOffset = 360\<rparr>"

definition example_subscription :: SubscriptionData where
  "example_subscription =
     \<lparr>sub_Contacts = [], sub_Tags = [], sub_Schedule = night_schedule,
      sub_Plotting = \<lparr>pl_Enabled = False, pl_Theme = []\<rparr>, sub_ID = ''s1'',
      sub_Enabled = True, sub_IgnoreWarnings = True, sub_IgnoreRecoverings = False,
      sub_ThrottlingEnabled = False, sub_User = []\<rparr>"

definition three_events :: NotificationEvents where
  "three_events =
     [example_event, example_event\<lparr>ev_State := ''ERROR''\<rparr>, example_event\<lparr>ev_State := ''OK''\<rparr>]"

definition nine_schedule :: ScheduleData where
  "nine_schedule =
     \<lparr>sd_Days = all_days, sd_TimezoneOffset = 0, sd_StartOffset = 540, sd_EndOffset = 540\<rparr>"

definition zero_CheckData :: CheckData where
  "zero_CheckData =
     \<lparr>cd_Metrics = None, cd_Score = 0, cd_State = [], cd_Maintenance = 0, cd_Timestamp = 0,
      cd_EventTimestamp = 0, cd_LastSuccessfulCheckTimestamp = 0, cd_Suppressed = False,
      cd_SuppressedState = [], cd_Message = []\<rparr>"

definition example_check :: CheckData where
  "example_check =
     zero_CheckData\<lparr>cd_Metrics := Some [(''m1'', zero_MetricState\<lparr>ms_State := ''ERROR''\<rparr>),
                                       (''m2'', zero_MetricState\<lparr>ms_State := ''WARN''\<rparr>)],
                    cd_State := ''ERROR''\<rparr>"

definition big_state :: MetricState where
  "big_state = zero_MetricState\<lparr>ms_Timestamp := 9007199254740993\<rparr>"

definition example_state :: MetricState where
  "example_state = zero_MetricState\<lparr>ms_Timestamp := 1000, ms_EventTimestamp := 900\<rparr>"

definition example_ext :: Externals where
  "example_ext =
     \<lparr>ext_TriggerName = ''name'', ext_TriggerDesc = ''desc'',
      ext_TriggerLastCheckScore = ''last_check_score'', ext_Fields = (\<lambda>s. [])\<rparr>"

definition two_hits :: "DocumentMatch list" where
  "two_hits =
     [\<lparr>hit_ID = ''t1'', hit_Fragments = [''name'' \<mapsto> [''disk'', '' full'']]\<rparr>,
      \<lparr>hit_ID = ''t2'', hit_Fragments = Map.empty\<rparr>]"

definition example_index :: TriggerIndex where
  "example_index =
     \<lparr>idx_DocCount = 2,
      idx_Search = (\<lambda>req. Inr \<lparr>sr_Total = length two_hits,
                                sr_Hits = take (nat (req_Size req)) (drop (nat (req_From req)) two_hits)\<rparr>)\<rparr>"

section \<open>Properties of MustIgnore\<close>

lemma eventStateWeight_weighted:
  "s \<in> weighted_states \<Longrightarrow> eventStateWeight s = Some (transition_weight s)"
  by (auto simp: weighted_states_def eventStateWeight_def transition_weight_def)

lemma eventStateWeight_unweighted:
  "s \<notin> weighted_states \<Longrightarrow> eventStateWeight s = None"
  by (simp add: weighted_states_def eventStateWeight_def)

text \<open>
  Claim C1. For an event whose old and new state are both among OK, WARN, ERROR and
  NODATA, with \<open>delta\<close> the weight of the new state minus the weight of the old one,
  \<open>MustIgnore\<close> is true exactly when \<open>delta < 0\<close> and recoverings are ignored, or
  \<open>delta = -1\<close> and recoverings or warnings are ignored, or \<open>delta = 1\<close> and warnings
  are ignored.
\<close>

theorem MustIgnore_weighted:
  assumes "ev_OldState e \<in> weighted_states" and "ev_State e \<in> weighted_states"
  shows "MustIgnore s e =
           (let delta = transition_weight (ev_State e) - transition_weight (ev_OldState e) in
            (delta < 0 \<and> sub_IgnoreRecoverings s) \<or>
            (delta = - 1 \<and> (sub_IgnoreRecoverings s \<or> sub_IgnoreWarnings s)) \<or>
            (delta = 1 \<and> sub_IgnoreWarnings s))"
  using assms
  by (auto simp: MustIgnore_def eventStateWeight_weighted Let_def)

text \<open>
  The transition OK to WARN under a subscription that ignores warnings is dropped; the
  transition WARN to ERROR under the same subscription is kept.
\<close>

theorem MustIgnore_weighted_witness:
  "ev_OldState example_event \<in> weighted_states \<and> ev_State example_event \<in> weighted_states \<and>
   MustIgnore example_subscription example_event"
  using MustIgnore_weighted [of example_event example_subscription]
  by (simp add: example_event_def example_subscription_def weighted_states_def
      transition_weight_def)

lemma MustIgnore_warn_to_error:
  "\<not> MustIgnore example_subscription
         (example_event\<lparr>ev_OldState := ''WARN'', ev_State := ''ERROR''\<rparr>)"
  by (simp add: MustIgnore_def eventStateWeight_def example_subscription_def)

text \<open>
  Claim C10. When the old state or the new state of the event is not one of OK, WARN,
  ERROR and NODATA, \<open>MustIgnore\<close> is false, whatever the two ignore flags are.
\<close>

theorem MustIgnore_unweighted:
  assumes "ev_OldState e \<notin> weighted_states \<or> ev_State e \<notin> weighted_states"
  shows "MustIgnore s e = False"
  using assms
  by (auto simp: MustIgnore_def eventStateWeight_unweighted split: option.splits)

theorem MustIgnore_unweighted_witness:
  "ev_State (example_event\<lparr>ev_State := ''EXCEPTION''\<rparr>) \<notin> weighted_states \<and>
   sub_IgnoreWarnings example_subscription \<and>
   MustIgnore example_subscription (example_event\<lparr>ev_State := ''EXCEPTION''\<rparr>) = False"
  using MustIgnore_unweighted [of "example_event\<lparr>ev_State := ''EXCEPTION''\<rparr>" example_subscription]
  by (simp add: weighted_states_def example_subscription_def)

section \<open>Properties of GetSubjectState\<close>

lemma mark_states_fold:
  "fold (\<lambda>event states. states(ev_State event \<mapsto> True)) events m k =
     (if k \<in> ev_State ` set events then Some True else m k)"
  by (induction events arbitrary: m) auto

lemma index_bool_mark_states:
  "index_bool (mark_states events) k = (k \<in> ev_State ` set events)"
  by (simp add: index_bool_def mark_states_def mark_states_fold)

lemma fold_keep_last:
  "fold (\<lambda>x r. if P x then x else r) xs r0 =
     (if filter P xs = [] then r0 else last (filter P xs))"
  by (induction xs arbitrary: r0) auto

lemma position_last_filter:
  "distinct xs \<Longrightarrow> x \<in> set xs \<Longrightarrow> P x \<Longrightarrow> position x xs \<le> position (last (filter P xs)) xs"
proof (induction xs)
  case Nil
  then show ?case by simp
next
  case (Cons h xs)
  show ?case
  proof (cases "x = h")
    case True
    then show ?thesis by simp
  next
    case False
    with Cons.prems have x: "x \<in> set xs" by simp
    with Cons.prems have ne: "filter P xs \<noteq> []" by (auto simp: filter_empty_conv)
    then have "last (filter P xs) \<in> set (filter P xs)" by (rule last_in_set)
    then have l: "last (filter P xs) \<in> set xs" by simp
    with Cons.prems have "last (filter P xs) \<noteq> h" by auto
    moreover have "position x xs \<le> position (last (filter P xs)) xs"
      using Cons.IH Cons.prems x by simp
    ultimately show ?thesis using False ne by simp
  qed
qed

lemma distinct_eventStates: "distinct eventStates"
  by (simp add: eventStates_def)

text \<open>
  Claim C6. For a non-empty list of events whose states all are in \<open>eventStates\<close>,
  \<open>GetSubjectState\<close> returns a state of one of the events, and no event of the list
  has a state that comes later in the order OK, WARN, ERROR, NODATA, EXCEPTION, TEST.
\<close>

theorem GetSubjectState_most_critical:
  assumes "events \<noteq> []" and "\<forall>e \<in> set events. ev_State e \<in> set eventStates"
  shows "GetSubjectState events \<in> ev_State ` set events \<and>
         (\<forall>e \<in> set events. state_rank (ev_State e) \<le> state_rank (GetSubjectState events))"
proof -
  let ?P = "\<lambda>s. s \<in> ev_State ` set events"
  have eq: "GetSubjectState events =
              (if filter ?P eventStates = [] then [] else last (filter ?P eventStates))"
    unfolding GetSubjectState_def Let_def index_bool_mark_states by (rule fold_keep_last)
  from assms(1) obtain e0 where e0: "e0 \<in> set events" by (cases events) auto
  with assms(2) have "ev_State e0 \<in> set eventStates" "?P (ev_State e0)" by auto
  then have ne: "filter ?P eventStates \<noteq> []" by (auto simp: filter_empty_conv)
  then have "last (filter ?P eventStates) \<in> set (filter ?P eventStates)" by (rule last_in_set)
  with eq ne have mem: "GetSubjectState events \<in> ev_State ` set events" by simp
  have "state_rank (ev_State e) \<le> state_rank (GetSubjectState events)" if "e \<in> set events" for e
  proof -
    from that assms(2) have "ev_State e \<in> set eventStates" "?P (ev_State e)" by auto
    with distinct_eventStates
    have "position (ev_State e) eventStates \<le> position (last (filter ?P eventStates)) eventStates"
      by (rule position_last_filter)
    with eq ne show ?thesis by (simp add: state_rank_def)
  qed
  with mem show ?thesis by blast
qed

lemma GetSubjectState_three_events: "GetSubjectState three_events = ''ERROR''"
  by (simp add: GetSubjectState_def mark_states_def index_bool_def eventStates_def
      three_events_def example_event_def)

theorem GetSubjectState_most_critical_witness:
  "three_events \<noteq> [] \<and> list_all (\<lambda>e. ev_State e \<in> set eventStates) three_events \<and>
   GetSubjectState three_events = ''ERROR'' \<and>
   ''ERROR'' \<in> ev_State ` set three_events \<and>
   list_all (\<lambda>e. state_rank (ev_State e) \<le> state_rank ''ERROR'') three_events"
proof -
  have ne: "three_events \<noteq> []" by (simp add: three_events_def)
  have st: "\<forall>e \<in> set three_events. ev_State e \<in> set eventStates"
    by (simp add: three_events_def example_event_def eventStates_def)
  from GetSubjectState_most_critical [OF ne st] ne st show ?thesis
    by (simp add: GetSubjectState_three_events list_all_iff)
qed

section \<open>Properties of IsScheduleAllows\<close>

subsection \<open>Arithmetic of the model\<close>

lemma int64_wrap64: "int64 (wrap64 x)"
  unfolding int64_def wrap64_def
  using pos_mod_bound [of "2 ^ 64" "x + 2 ^ 63"] pos_mod_sign [of "2 ^ 64" "x + 2 ^ 63"]
  by simp

lemma wrap64_id: "int64 x \<Longrightarrow> wrap64 x = x"
  unfolding int64_def wrap64_def by (simp add: mod_pos_pos_trivial)

lemma go_rem_nonneg: "0 \<le> x \<Longrightarrow> 0 < y \<Longrightarrow> go_rem x y = x mod y"
  by (cases "x = 0") (simp_all add: go_rem_def)

lemma go_rem_bounds:
  assumes "0 < y"
  shows "(0 \<le> x \<longrightarrow> 0 \<le> go_rem x y \<and> go_rem x y \<le> x \<and> go_rem x y < y) \<and>
         (x \<le> 0 \<longrightarrow> x \<le> go_rem x y \<and> go_rem x y \<le> 0 \<and> - y < go_rem x y)"
proof -
  have a: "0 \<le> \<bar>x\<bar> mod y" "\<bar>x\<bar> mod y < y" using assms by simp_all
  have b: "\<bar>x\<bar> mod y \<le> \<bar>x\<bar>" by (rule zmod_le_nonneg_dividend) simp
  show ?thesis
  proof (cases "0 \<le> x")
    case True
    then show ?thesis using a b assms by (cases "x = 0") (simp_all add: go_rem_def)
  next
    case False
    then show ?thesis using a b assms by (simp add: go_rem_def)
  qed
qed

lemma int64_sub_go_rem: "int64 x \<Longrightarrow> 0 < y \<Longrightarrow> int64 (x - go_rem x y)"
  using go_rem_bounds [of y x] unfolding int64_def by (cases "0 \<le> x") auto

lemma Weekday_range: "0 \<le> Weekday t \<and> Weekday t < 7"
  by (simp add: Weekday_def)

lemma day_index_less: "day_index t < 7"
proof -
  have "go_rem (Weekday t + 6) 7 = (Weekday t + 6) mod 7"
    using Weekday_range [of t] by (intro go_rem_nonneg) auto
  then show ?thesis by (simp add: day_index_def)
qed


subsection \<open>The two kinds of window\<close>

text \<open>
  With offsets that are minutes of a day, the function is a comparison of the second of
  the day, \<open>go_rem timestamp 86400\<close>, with the offsets. A window inside one day has
  both ends; a window over midnight has neither the start minute nor the end minute.
\<close>

lemma wrap64_small: "- (2 ^ 63) \<le> x \<Longrightarrow> x < 2 ^ 63 \<Longrightarrow> wrap64 x = x"
  by (rule wrap64_id) (simp add: int64_def)

lemma wrap64_day_start:
  "wrap64 (shifted_timestamp s ts - go_rem (shifted_timestamp s ts) 86400) =
     shifted_timestamp s ts - go_rem (shifted_timestamp s ts) 86400"
proof -
  have "int64 (shifted_timestamp s ts)" unfolding shifted_timestamp_def by (rule int64_wrap64)
  then have "int64 (shifted_timestamp s ts - go_rem (shifted_timestamp s ts) 86400)"
    by (rule int64_sub_go_rem) simp
  then show ?thesis by (rule wrap64_id)
qed

lemma wrap64_offset_minutes:
  assumes "- 1440 \<le> x" and "x < 2880"
  shows "wrap64 (x * 60000000000) = x * 60000000000"
  using assms by (intro wrap64_small) auto

lemma IsScheduleAllows_inside:
  assumes days: "7 \<le> length (sd_Days s)"
    and lo: "0 \<le> sd_StartOffset s" and le: "sd_StartOffset s \<le> sd_EndOffset s"
    and hi: "sd_EndOffset s < 1440"
  shows "IsScheduleAllows (Some s) ts =
           Inr (day_Enabled (sd_Days s ! day_index (shifted_timestamp s ts)) \<and>
                sd_StartOffset s * 60 \<le> go_rem (shifted_timestamp s ts) 86400 \<and>
                go_rem (shifted_timestamp s ts) 86400 \<le> sd_EndOffset s * 60)"
proof -
  have idx: "\<not> length (sd_Days s) \<le> day_index (shifted_timestamp s ts)"
    using day_index_less [of "shifted_timestamp s ts"] days by simp
  have ws: "wrap64 (sd_StartOffset s * 60000000000) = sd_StartOffset s * 60000000000"
    using lo le hi by (intro wrap64_offset_minutes) auto
  have we: "wrap64 (sd_EndOffset s * 60000000000) = sd_EndOffset s * 60000000000"
    using lo le hi by (intro wrap64_offset_minutes) auto
  from le hi idx show ?thesis
    by (auto simp: IsScheduleAllows_def Let_def Unix_def Minute_def wrap64_day_start ws we)
qed

lemma IsScheduleAllows_overnight:
  assumes days: "7 \<le> length (sd_Days s)"
    and lo: "0 \<le> sd_EndOffset s" and lt: "sd_EndOffset s < sd_StartOffset s"
    and hi: "sd_StartOffset s < 1440"
  shows "IsScheduleAllows (Some s) ts =
           Inr (day_Enabled (sd_Days s ! day_index (shifted_timestamp s ts)) \<and>
                (go_rem (shifted_timestamp s ts) 86400 < sd_EndOffset s * 60 \<or>
                 sd_StartOffset s * 60 < go_rem (shifted_timestamp s ts) 86400))"
proof -
  have idx: "\<not> length (sd_Days s) \<le> day_index (shifted_timestamp s ts)"
    using day_index_less [of "shifted_timestamp s ts"] days by simp
  have ws: "wrap64 (sd_StartOffset s * 60000000000) = sd_StartOffset s * 60000000000"
    using lo lt hi by (intro wrap64_offset_minutes) auto
  have w1: "wrap64 (sd_EndOffset s + 1440) = sd_EndOffset s + 1440"
    using lo lt hi by (intro wrap64_small) auto
  have we: "wrap64 (sd_EndOffset s * 60000000000 + 86400000000000) =
              sd_EndOffset s * 60000000000 + 86400000000000"
    using lo lt hi by (intro wrap64_small) auto
  have wh: "wrap64 (- 86400000000000) = - 86400000000000"
    by (intro wrap64_small) auto
  from lo lt hi idx show ?thesis
    by (auto simp: IsScheduleAllows_def Let_def Unix_def Minute_def Hour_def wrap64_day_start
        ws w1 we wh)
qed

subsection \<open>Evaluation on concrete schedules\<close>

lemma all_days_length: "length all_days = 7"
  by (simp add: all_days_def)

lemma all_days_nth: "i < 7 \<Longrightarrow> day_Enabled (all_days ! i)"
  by (simp add: all_days_def)


lemmas schedule_eval =
  IsScheduleAllows_def Let_def shifted_timestamp_def wrap64_def go_rem_def
  day_index_def Weekday_def Unix_def Minute_def Hour_def all_days_length all_days_nth


text \<open>
  The schedule from 22:00 to 06:00 with every day enabled, on 1 January 1970: allowed at
  23:00 and at 05:00, denied at 10:00.
\<close>

lemma night_schedule_2300: "IsScheduleAllows (Some night_schedule) 82800 = Inr True"
  by (simp add: schedule_eval night_schedule_def)

lemma night_schedule_1000: "IsScheduleAllows (Some night_schedule) 36000 = Inr False"
  by (simp add: schedule_eval night_schedule_def)

lemma night_schedule_0500: "IsScheduleAllows (Some night_schedule) 18000 = Inr True"
  by (simp add: schedule_eval night_schedule_def)

subsection \<open>The claims\<close>

text \<open>
  Claim C5. \<open>IsScheduleAllows\<close> returns \<open>true\<close> for the \<open>nil\<close> schedule, and for a
  schedule with at least seven entries in \<open>Days\<close> it returns a boolean for every
  timestamp: the index into \<open>Days\<close> is below 7, so the indexing does not panic.
\<close>

theorem IsScheduleAllows_total:
  "IsScheduleAllows None ts = Inr True \<and>
   (7 \<le> length (sd_Days s) \<longrightarrow> (\<exists>b. IsScheduleAllows (Some s) ts = Inr b))"
proof -
  have "day_index (shifted_timestamp s ts) < 7" by (rule day_index_less)
  then show ?thesis by (auto simp: IsScheduleAllows_def Let_def)
qed


theorem IsScheduleAllows_total_witness:
  "7 \<le> length (sd_Days night_schedule) \<and> (\<exists>b. IsScheduleAllows (Some night_schedule) 82800 = Inr b)"
proof -
  have len: "7 \<le> length (sd_Days night_schedule)"
    by (simp add: night_schedule_def all_days_length)
  with IsScheduleAllows_total [of 82800 night_schedule] show ?thesis by blast
qed


text \<open>
  Claim C3, at the start minute. The schedule from 22:00 to 06:00 has the end offset
  below the start offset, seven days, all enabled. At 22:00:00 the minute of the day
  equals the start offset, and \<open>IsScheduleAllows\<close> returns \<open>false\<close>: the branch for a
  window over midnight compares with \<open>After\<close> alone, where the branch for a window
  inside one day also accepts \<open>Equal\<close>.
\<close>

theorem IsScheduleAllows_start_minute:
  "sd_EndOffset night_schedule < sd_StartOffset night_schedule \<and>
   length (sd_Days night_schedule) = 7 \<and>
   day_Enabled (sd_Days night_schedule ! day_index (shifted_timestamp night_schedule 79200)) \<and>
   shifted_timestamp night_schedule 79200 mod 86400 = sd_StartOffset night_schedule * 60 \<and>
   IsScheduleAllows (Some night_schedule) 79200 = Inr False"
  by (simp add: schedule_eval night_schedule_def)


text \<open>
  Claim C4 as stated fails: with both offsets at 09:00 the function returns \<open>true\<close> at
  09:00:30, which is cut to the minute 09:00.
\<close>

theorem IsScheduleAllows_equal_offsets_counterexample:
  "sd_EndOffset nine_schedule = sd_StartOffset nine_schedule \<and>
   length (sd_Days nine_schedule) = 7 \<and>
   IsScheduleAllows (Some nine_schedule) 32430 = Inr True"
  by (simp add: schedule_eval nine_schedule_def)


text \<open>
  Before the epoch the remainder of Go is negative or zero and \<open>dayStart\<close> is the
  midnight that follows: on 31 December 1969 at 09:00, with both offsets at 09:00, the
  function returns \<open>false\<close>.
\<close>

lemma IsScheduleAllows_before_epoch:
  "shifted_timestamp nine_schedule (- 54000) mod 86400 = sd_StartOffset nine_schedule * 60 \<and>
   IsScheduleAllows (Some nine_schedule) (- 54000) = Inr False"
  by (simp add: schedule_eval nine_schedule_def)

text \<open>
  Without overflow the shifted timestamp is a whole minute, and for a whole minute
  \<open>t\<close> the equation \<open>t mod 86400 = m * 60\<close> says that its minute of the day is \<open>m\<close>.
\<close>

lemma whole_minute_of_day:
  assumes "t mod 60 = 0"
  shows "(t mod 86400 = m * 60) = ((t mod 86400) div 60 = (m::int))"
proof -
  have "(60::int) dvd 86400" by simp
  then have "(t mod 86400) mod 60 = t mod 60" by (rule mod_mod_cancel)
  with assms have "(t mod 86400) mod 60 = 0" by simp
  then have "t mod 86400 = (t mod 86400) div 60 * 60" by (simp add: mod_eq_0_iff_dvd)
  then show ?thesis by (metis mult_cancel_right zero_neq_numeral nonzero_mult_div_cancel_right)
qed

lemma shifted_timestamp_whole_minute:
  assumes "\<bar>ts\<bar> < 2 ^ 62" and "\<bar>sd_TimezoneOffset s\<bar> < 2 ^ 50"
  shows "shifted_timestamp s ts = ts - go_rem ts 60 - sd_TimezoneOffset s * 60 \<and>
         shifted_timestamp s ts mod 60 = 0"
proof -
  have b: "(0 \<le> ts \<longrightarrow> 0 \<le> go_rem ts 60 \<and> go_rem ts 60 \<le> ts) \<and>
           (ts \<le> 0 \<longrightarrow> ts \<le> go_rem ts 60 \<and> go_rem ts 60 \<le> 0)"
    using go_rem_bounds [of 60 ts] by simp
  have w1: "wrap64 (ts - go_rem ts 60) = ts - go_rem ts 60"
    using assms(1) b by (intro wrap64_small) auto
  have w2: "wrap64 (sd_TimezoneOffset s * 60) = sd_TimezoneOffset s * 60"
    using assms(2) by (intro wrap64_small) auto
  have w3: "wrap64 (ts - go_rem ts 60 - sd_TimezoneOffset s * 60) =
              ts - go_rem ts 60 - sd_TimezoneOffset s * 60"
    using assms b by (intro wrap64_small) auto
  have eq: "shifted_timestamp s ts = ts - go_rem ts 60 - sd_TimezoneOffset s * 60"
    by (simp add: shifted_timestamp_def w1 w2 w3)
  have "(ts - go_rem ts 60) mod 60 = 0"
  proof (cases "0 \<le> ts")
    case True
    then have "go_rem ts 60 = ts mod 60" by (intro go_rem_nonneg) simp_all
    then show ?thesis by (simp add: minus_mod_eq_mult_div)
  next
    case False
    then have "go_rem ts 60 = - ((- ts) mod 60)" by (simp add: go_rem_def)
    then have "ts - go_rem ts 60 = - ((- ts) - (- ts) mod 60)" by simp
    also have "\<dots> = - (60 * ((- ts) div 60))" by (simp add: minus_mod_eq_mult_div)
    finally show ?thesis by simp
  qed
  then have "(ts - go_rem ts 60 - sd_TimezoneOffset s * 60) mod 60 = 0"
    by (metis mod_mult_self4 diff_conv_add_uminus mult.commute mult_minus_left mod_mult_self2 minus_mult_right)
  with eq show ?thesis by simp
qed

text \<open>
  Claim C4, amended. For a schedule with at least seven days whose end offset equals its
  start offset, a minute of the day, and a timestamp whose shifted value \<open>t\<close> is at or
  after the epoch and below \<open>2^62\<close>, \<open>IsScheduleAllows\<close> returns \<open>true\<close> exactly when
  the weekday of \<open>t\<close> is enabled and \<open>t mod 86400\<close> is the start offset times 60, that
  is, \<open>t\<close> is the minute of the start offset: the window is that one minute.
\<close>

theorem IsScheduleAllows_equal_offsets:
  assumes "7 \<le> length (sd_Days s)" and "sd_EndOffset s = sd_StartOffset s"
    and "0 \<le> sd_StartOffset s" and "sd_StartOffset s < 1440"
    and "0 \<le> shifted_timestamp s ts" and "shifted_timestamp s ts < 2 ^ 62"
  shows "IsScheduleAllows (Some s) ts =
           Inr (day_Enabled (sd_Days s ! day_index (shifted_timestamp s ts)) \<and>
                shifted_timestamp s ts mod 86400 = sd_StartOffset s * 60)"
proof -
  have r: "go_rem (shifted_timestamp s ts) 86400 = shifted_timestamp s ts mod 86400"
    using assms(5) by (intro go_rem_nonneg) simp_all
  have "IsScheduleAllows (Some s) ts =
           Inr (day_Enabled (sd_Days s ! day_index (shifted_timestamp s ts)) \<and>
                sd_StartOffset s * 60 \<le> go_rem (shifted_timestamp s ts) 86400 \<and>
                go_rem (shifted_timestamp s ts) 86400 \<le> sd_EndOffset s * 60)"
    using assms(1-4) by (intro IsScheduleAllows_inside) simp_all
  then show ?thesis using assms(2) unfolding r by auto
qed

theorem IsScheduleAllows_equal_offsets_witness:
  "7 \<le> length (sd_Days nine_schedule) \<and> sd_EndOffset nine_schedule = sd_StartOffset nine_schedule \<and>
   0 \<le> sd_StartOffset nine_schedule \<and> sd_StartOffset nine_schedule < 1440 \<and>
   0 \<le> shifted_timestamp nine_schedule 32430 \<and> shifted_timestamp nine_schedule 32430 < 2 ^ 62 \<and>
   shifted_timestamp nine_schedule 32430 mod 86400 = sd_StartOffset nine_schedule * 60 \<and>
   IsScheduleAllows (Some nine_schedule) 32430 = Inr True \<and>
   0 \<le> shifted_timestamp nine_schedule 32460 \<and> shifted_timestamp nine_schedule 32460 < 2 ^ 62 \<and>
   IsScheduleAllows (Some nine_schedule) 32460 = Inr False"
proof -
  have a: "7 \<le> length (sd_Days nine_schedule)" "sd_EndOffset nine_schedule = sd_StartOffset nine_schedule"
    "0 \<le> sd_StartOffset nine_schedule" "sd_StartOffset nine_schedule < 1440"
    by (simp_all add: nine_schedule_def all_days_length)
  have t: "shifted_timestamp nine_schedule 32430 = 32400" "shifted_timestamp nine_schedule 32460 = 32460"
    by (simp_all add: shifted_timestamp_def wrap64_def go_rem_def nine_schedule_def)
  have b: "0 \<le> shifted_timestamp nine_schedule 32430" "shifted_timestamp nine_schedule 32430 < 2 ^ 62"
    "0 \<le> shifted_timestamp nine_schedule 32460" "shifted_timestamp nine_schedule 32460 < 2 ^ 62"
    by (simp_all add: t)
  have d: "day_index 32400 = 3" "day_index 32460 = 3"
    by (simp_all add: day_index_def Weekday_def go_rem_def)
  have s: "sd_StartOffset nine_schedule = 540" "day_Enabled (sd_Days nine_schedule ! 3)"
    by (simp_all add: nine_schedule_def all_days_nth)
  from IsScheduleAllows_equal_offsets [OF a b(1) b(2)] IsScheduleAllows_equal_offsets [OF a b(3) b(4)]
  have "IsScheduleAllows (Some nine_schedule) 32430 = Inr True"
    "IsScheduleAllows (Some nine_schedule) 32460 = Inr False"
    by (simp_all add: t d s)
  with a b show ?thesis by (simp add: t s)
qed

section \<open>Properties of GetOrCreateMetricState\<close>

text \<open>
  Claim C7 as stated fails on a \<open>CheckData\<close> whose \<open>Metrics\<close> is the \<open>nil\<close> map (the
  zero value of the struct): the metric is not present, and the assignment to the map
  panics instead of inserting.
\<close>

theorem GetOrCreateMetricState_nil_counterexample:
  "index_metrics (cd_Metrics zero_CheckData) ''m1'' = None \<and>
   GetOrCreateMetricState 1000 zero_CheckData ''m1'' 500 False = Inl AssignmentToNilMap"
  by (simp add: GetOrCreateMetricState_def index_metrics_def assign_metrics_def zero_CheckData_def)

text \<open>
  Claim C7, amended. On a \<open>CheckData\<close> whose \<open>Metrics\<close> map is allocated,
  \<open>GetOrCreateMetricState\<close> returns, and afterwards the metric is present with the
  returned state while every other key is as before. When the metric was present, the
  \<open>CheckData\<close> is unchanged and the returned state is the stored one. When it was
  absent, only \<open>Metrics\<close> changes, and the new state is NODATA with \<open>Timestamp\<close> the
  given one and \<open>EventTimestamp\<close> 0 if \<open>muteNewMetric\<close> is false, and OK with both
  timestamps the wall-clock time if it is true.
\<close>

theorem GetOrCreateMetricState_allocated:
  assumes "cd_Metrics c = Some kvs"
  shows "\<exists>c' st. GetOrCreateMetricState unixNow c metric from muteNewMetric = Inr (c', st) \<and>
           index_metrics (cd_Metrics c') metric = Some st \<and>
           (\<forall>k. k \<noteq> metric \<longrightarrow> index_metrics (cd_Metrics c') k = index_metrics (cd_Metrics c) k) \<and>
           (case index_metrics (cd_Metrics c) metric of
              Some old \<Rightarrow> c' = c \<and> st = old
            | None \<Rightarrow>
                c' = c\<lparr>cd_Metrics := cd_Metrics c'\<rparr> \<and>
                (if muteNewMetric
                 then ms_State st = ''OK'' \<and> ms_Timestamp st = unixNow \<and> ms_EventTimestamp st = unixNow
                 else ms_State st = ''NODATA'' \<and> ms_Timestamp st = from \<and> ms_EventTimestamp st = 0))"
proof (cases "map_of kvs metric")
  case None
  with assms show ?thesis
    by (simp add: GetOrCreateMetricState_def index_metrics_def assign_metrics_def Let_def
        update_conv' createEmptyMetricState_def zero_MetricState_def)
next
  case (Some old)
  with assms show ?thesis
    by (simp add: GetOrCreateMetricState_def index_metrics_def Let_def)
qed

lemma example_check_Metrics:
  "cd_Metrics example_check = Some [(''m1'', zero_MetricState\<lparr>ms_State := ''ERROR''\<rparr>),
                                       (''m2'', zero_MetricState\<lparr>ms_State := ''WARN''\<rparr>)]"
  by (simp add: example_check_def zero_CheckData_def)

theorem GetOrCreateMetricState_allocated_witness:
  "cd_Metrics example_check \<noteq> None \<and>
   index_metrics (cd_Metrics example_check) ''m3'' = None \<and>
   (\<exists>c' st. GetOrCreateMetricState 1000 example_check ''m3'' 500 False = Inr (c', st) \<and>
      index_metrics (cd_Metrics c') ''m3'' = Some st \<and>
      ms_State st = ''NODATA'' \<and> ms_Timestamp st = 500 \<and> ms_EventTimestamp st = 0)"
proof -
  have n: "index_metrics (cd_Metrics example_check) ''m3'' = None"
    by (simp add: example_check_Metrics index_metrics_def)
  from GetOrCreateMetricState_allocated [OF example_check_Metrics, of 1000 "''m3''" 500 False]
  obtain c' st where "GetOrCreateMetricState 1000 example_check ''m3'' 500 False = Inr (c', st)"
    "index_metrics (cd_Metrics c') ''m3'' = Some st"
    "ms_State st = ''NODATA'' \<and> ms_Timestamp st = 500 \<and> ms_EventTimestamp st = 0"
    unfolding n by auto
  then show ?thesis using n by (auto simp: example_check_Metrics)
qed

section \<open>Properties of GetCheckPoint\<close>

lemma float64_of_int64_exact:
  assumes "\<bar>x\<bar> < 2 ^ 53"
  shows "float64_of_int64 x = x"
proof -
  from assms have "ulp \<bar>x\<bar> = 1" by (simp add: ulp.simps)
  then show ?thesis by (simp add: float64_of_int64_def round_half_even_def mult_sgn_abs)
qed

text \<open>
  Claim C8 as stated fails beyond the integers that a \<open>float64\<close> holds exactly: with
  \<open>Timestamp\<close> \<open>2^53 + 1\<close>, \<open>EventTimestamp\<close> 0 and gap 0, the conversion rounds to
  \<open>2^53\<close>, which is not the maximum.
\<close>

theorem GetCheckPoint_precision_counterexample:
  "0 \<le> (0::int) \<and> GetCheckPoint big_state 0 = Some 9007199254740992 \<and>
   max (ms_Timestamp big_state - 0) (ms_EventTimestamp big_state) = 9007199254740993"
  by (simp add: GetCheckPoint_def big_state_def zero_MetricState_def wrap64_def
      float64_of_int64_def round_half_even_def ulp.simps int64_of_float64_def int64_def)

text \<open>
  Claim C8, amended. When \<open>Timestamp - gap\<close> and \<open>EventTimestamp\<close> are both below
  \<open>2^53\<close> in absolute value, \<open>GetCheckPoint\<close> returns the larger of the two.
\<close>

theorem GetCheckPoint_max:
  assumes "\<bar>ms_Timestamp s - gap\<bar> < 2 ^ 53" and "\<bar>ms_EventTimestamp s\<bar> < 2 ^ 53"
  shows "GetCheckPoint s gap = Some (max (ms_Timestamp s - gap) (ms_EventTimestamp s))"
proof -
  have w: "wrap64 (ms_Timestamp s - gap) = ms_Timestamp s - gap"
    using assms(1) by (intro wrap64_small) auto
  have "int64 (max (ms_Timestamp s - gap) (ms_EventTimestamp s))"
    using assms unfolding int64_def by auto
  then show ?thesis
    using assms by (simp add: GetCheckPoint_def w float64_of_int64_exact int64_of_float64_def)
qed

theorem GetCheckPoint_max_witness:
  "\<bar>ms_Timestamp example_state - 120\<bar> < (2::int) ^ 53 \<and> \<bar>ms_EventTimestamp example_state\<bar> < (2::int) ^ 53 \<and>
   GetCheckPoint example_state 120 = Some 900 \<and> GetCheckPoint example_state 50 = Some 950"
proof -
  have v: "ms_Timestamp example_state = 1000" "ms_EventTimestamp example_state = 900"
    by (simp_all add: example_state_def zero_MetricState_def)
  have a: "\<bar>ms_Timestamp example_state - 120\<bar> < (2::int) ^ 53" "\<bar>ms_EventTimestamp example_state\<bar> < (2::int) ^ 53"
    "\<bar>ms_Timestamp example_state - 50\<bar> < (2::int) ^ 53"
    by (simp_all add: v)
  from GetCheckPoint_max [OF a(1) a(2)] GetCheckPoint_max [OF a(3) a(2)] a show ?thesis
    by (simp add: v)
qed

section \<open>Properties of UpdateScore\<close>

lemma index_scores_weight: "index_scores s = score_weight s"
  by (simp add: index_scores_def scores_def score_weight_def)

lemma score_weight_range: "0 \<le> score_weight s \<and> score_weight s \<le> 100000"
  by (simp add: score_weight_def)

lemma mod_shift_add:
  "((x + h) mod m - h + b + h) mod m = (x + b + h) mod (m::int)"
proof -
  have "((x + h) mod m - h + b + h) mod m = ((x + h) mod m + b) mod m" by simp
  also have "\<dots> = (x + h + b) mod m" by (rule mod_add_left_eq)
  also have "x + h + b = x + b + h" by simp
  finally show ?thesis .
qed

lemma wrap64_add_left: "wrap64 (wrap64 a + b) = wrap64 (a + b)"
  unfolding wrap64_def by (simp only: mod_shift_add)

lemma fold_wrap64_sum:
  "fold (\<lambda>m score. wrap64 (score + w m)) ms (wrap64 s0) = wrap64 (s0 + sum_list (map w ms))"
proof (induction ms arbitrary: s0)
  case Nil
  then show ?case by simp
next
  case (Cons m ms)
  have "fold (\<lambda>m score. wrap64 (score + w m)) (m # ms) (wrap64 s0) =
          fold (\<lambda>m score. wrap64 (score + w m)) ms (wrap64 (s0 + w m))"
    by (simp add: wrap64_add_left)
  also have "\<dots> = wrap64 (s0 + w m + sum_list (map w ms))" by (rule Cons.IH)
  finally show ?case by (simp add: add.assoc)
qed

lemma sum_list_score_weight_bounds:
  "0 \<le> sum_list (map (\<lambda>m. score_weight (ms_State m)) ms) \<and>
   sum_list (map (\<lambda>m. score_weight (ms_State m)) ms) \<le> 100000 * int (length ms)"
proof (induction ms)
  case Nil
  then show ?case by simp
next
  case (Cons m ms)
  then show ?case using score_weight_range [of "ms_State m"] by simp
qed

lemma UpdateScore_weighted_sum:
  "snd (UpdateScore c) =
     wrap64 (score_weight (cd_State c) +
             sum_list (map (\<lambda>m. score_weight (ms_State m)) (range_metrics (cd_Metrics c))))"
proof -
  have s0: "wrap64 (score_weight (cd_State c)) = score_weight (cd_State c)"
    using score_weight_range [of "cd_State c"] by (intro wrap64_small) auto
  have "snd (UpdateScore c) =
          fold (\<lambda>m score. wrap64 (score + score_weight (ms_State m)))
            (range_metrics (cd_Metrics c)) (wrap64 (score_weight (cd_State c)))"
    by (simp add: UpdateScore_def Let_def index_scores_weight s0)
  then show ?thesis by (simp only: fold_wrap64_sum)
qed

text \<open>
  Go fixes no order for the iteration over a map. The score does not depend on it: two
  lists with the same entries give the same score.
\<close>

lemma UpdateScore_any_order:
  assumes "mset kvs = mset kvs'"
  shows "snd (UpdateScore (c\<lparr>cd_Metrics := Some kvs\<rparr>)) =
         snd (UpdateScore (c\<lparr>cd_Metrics := Some kvs'\<rparr>))"
proof -
  have "mset (map (\<lambda>kv. score_weight (ms_State (snd kv))) kvs) =
        mset (map (\<lambda>kv. score_weight (ms_State (snd kv))) kvs')"
    using assms by (metis mset_map)
  then have "sum_list (map (\<lambda>kv. score_weight (ms_State (snd kv))) kvs) =
             sum_list (map (\<lambda>kv. score_weight (ms_State (snd kv))) kvs')"
    by (metis sum_mset_sum_list)
  then have "sum_list (map (\<lambda>m. score_weight (ms_State m)) (map snd kvs)) =
             sum_list (map (\<lambda>m. score_weight (ms_State m)) (map snd kvs'))"
    by (simp add: comp_def)
  then show ?thesis
    using UpdateScore_weighted_sum [of "c\<lparr>cd_Metrics := Some kvs\<rparr>"]
      UpdateScore_weighted_sum [of "c\<lparr>cd_Metrics := Some kvs'\<rparr>"]
    by (simp add: range_metrics_def)
qed

text \<open>
  Claim C2. \<open>UpdateScore\<close> stores the score it returns and changes nothing else. The
  score is the weight of the state of the check plus the sum of the weights of the
  states of all metrics, under the weights OK 0, DEL 0, WARN 1, ERROR 100, NODATA 1000,
  EXCEPTION 100000 (any other state adds 0), computed in \<open>int64\<close>. With fewer than
  \<open>2^46\<close> metrics the additions cannot overflow and the score is that sum exactly.
\<close>

theorem UpdateScore_sum:
  "fst (UpdateScore c) = c\<lparr>cd_Score := snd (UpdateScore c)\<rparr> \<and>
   snd (UpdateScore c) =
     wrap64 (score_weight (cd_State c) +
             sum_list (map (\<lambda>m. score_weight (ms_State m)) (range_metrics (cd_Metrics c)))) \<and>
   (length (range_metrics (cd_Metrics c)) < 2 ^ 46 \<longrightarrow>
    snd (UpdateScore c) =
      score_weight (cd_State c) +
      sum_list (map (\<lambda>m. score_weight (ms_State m)) (range_metrics (cd_Metrics c))))"
proof -
  let ?ms = "range_metrics (cd_Metrics c)"
  let ?sum = "sum_list (map (\<lambda>m. score_weight (ms_State m)) ?ms)"
  have w: "snd (UpdateScore c) = wrap64 (score_weight (cd_State c) + ?sum)"
    by (rule UpdateScore_weighted_sum)
  have exact: "wrap64 (score_weight (cd_State c) + ?sum) = score_weight (cd_State c) + ?sum"
    if "length ?ms < 2 ^ 46"
  proof -
    from that have "int (length ?ms) < 2 ^ 46" by (metis of_nat_less_iff of_nat_numeral of_nat_power)
    then have "100000 * int (length ?ms) < 100000 * 2 ^ 46" by simp
    with sum_list_score_weight_bounds [of ?ms] score_weight_range [of "cd_State c"]
    show ?thesis by (intro wrap64_small) auto
  qed
  have f: "fst (UpdateScore c) = c\<lparr>cd_Score := snd (UpdateScore c)\<rparr>"
    by (simp add: UpdateScore_def Let_def)
  from f w exact show ?thesis by simp
qed

lemma UpdateScore_example: "snd (UpdateScore example_check) = 201"
  by (simp add: UpdateScore_def Let_def example_check_def zero_CheckData_def range_metrics_def
      index_scores_def scores_def zero_MetricState_def wrap64_def)

theorem UpdateScore_sum_witness:
  "length (range_metrics (cd_Metrics example_check)) < 2 ^ 46 \<and>
   snd (UpdateScore example_check) = 201 \<and>
   score_weight (cd_State example_check) +
     sum_list (map (\<lambda>m. score_weight (ms_State m)) (range_metrics (cd_Metrics example_check))) = 201"
proof -
  have l: "length (range_metrics (cd_Metrics example_check)) < 2 ^ 46"
    by (simp add: example_check_def zero_CheckData_def range_metrics_def)
  from UpdateScore_sum [of example_check] l
  have "snd (UpdateScore example_check) =
      score_weight (cd_State example_check) +
      sum_list (map (\<lambda>m. score_weight (ms_State m)) (range_metrics (cd_Metrics example_check)))"
    by blast
  with l show ?thesis by (simp add: UpdateScore_example)
qed

section \<open>Properties of Search\<close>

lemma Search_negative: 
  assumes "sz < 0"
  shows "Search ext index filterTags searchString onlyErrors page sz =
         Search ext index filterTags searchString onlyErrors 0 (wrap64 (int (idx_DocCount index)))"
  using assms by (simp add: Search_def)

lemma wrap64_nat: "n < 2 ^ 63 \<Longrightarrow> wrap64 (int n) = int n"
  unfolding wrap64_def by (simp add: mod_pos_pos_trivial)

lemma Search_all:
  assumes "sz < 0" and "paginated index matching" and "idx_DocCount index < 2 ^ 63"
    and "length (matching (buildSearchQuery filterTags (splitStringToTerms ext searchString) onlyErrors) (search_sort ext)) \<le> idx_DocCount index"
  shows "Search ext index filterTags searchString onlyErrors page sz =
           Inr (map (hit_result ext)
                  (matching (buildSearchQuery filterTags (splitStringToTerms ext searchString) onlyErrors) (search_sort ext)),
                int (length (matching (buildSearchQuery filterTags (splitStringToTerms ext searchString) onlyErrors) (search_sort ext))), None)"
proof -
  let ?hits = "matching (buildSearchQuery filterTags (splitStringToTerms ext searchString) onlyErrors) (search_sort ext)"
  have n: "wrap64 (int (idx_DocCount index)) = int (idx_DocCount index)"
    using assms(3) by (rule wrap64_nat)
  have "length ?hits < 2 ^ 63" using assms(3,4) by simp
  then have t: "wrap64 (int (length ?hits)) = int (length ?hits)" by (rule wrap64_nat)
  have z: "wrap64 0 = 0" by (simp add: wrap64_def)
  from assms(2) have "idx_Search index (buildSearchRequest ext filterTags searchString onlyErrors 0 (int (idx_DocCount index)))
     = Inr \<lparr>sr_Total = length ?hits, sr_Hits = ?hits\<rparr>"
    using assms(4) by (simp add: paginated_def buildSearchRequest_def Let_def z)
  then show ?thesis using assms(1) by (simp add: Search_def n t Let_def)
qed

text \<open>
  Claim C9. A call of \<open>Search\<close> with a negative size gives what the call with page 0
  and, as size, the count of documents of the index gives. When the index answers by
  pages and no more documents match than it counts, that is every matching document,
  in one page, with their number as total.
\<close>

theorem Search_negative_size:
  assumes "sz < 0"
  shows "Search ext index filterTags searchString onlyErrors page sz =
           Search ext index filterTags searchString onlyErrors 0 (wrap64 (int (idx_DocCount index))) \<and>
         (paginated index matching \<and> idx_DocCount index < 2 ^ 63 \<and>
          length (matching (buildSearchQuery filterTags (splitStringToTerms ext searchString) onlyErrors)
                    (search_sort ext)) \<le> idx_DocCount index \<longrightarrow>
          Search ext index filterTags searchString onlyErrors page sz =
            Inr (map (hit_result ext)
                   (matching (buildSearchQuery filterTags (splitStringToTerms ext searchString) onlyErrors)
                      (search_sort ext)),
                 int (length (matching (buildSearchQuery filterTags
                                 (splitStringToTerms ext searchString) onlyErrors) (search_sort ext))),
                 None))"
  using Search_negative [OF assms] Search_all [OF assms] by blast

lemma example_index_paginated: "paginated example_index (\<lambda>q srt. two_hits)"
  by (simp add: paginated_def example_index_def)

theorem Search_negative_size_witness:
  "(- 1 :: int) < 0 \<and> paginated example_index (\<lambda>q srt. two_hits) \<and>
   Search example_ext example_index [] ''disk'' False 3 (- 1) =
     Inr ([\<lparr>tsr_TriggerID = ''t1'', tsr_HighLights = \<lparr>hl_Name = ''disk full'', hl_Desc = []\<rparr>\<rparr>,
           \<lparr>tsr_TriggerID = ''t2'', tsr_HighLights = \<lparr>hl_Name = [], hl_Desc = []\<rparr>\<rparr>], 2, None)"
proof -
  have neg: "(- 1 :: int) < 0" by simp
  have cnt: "idx_DocCount example_index < 2 ^ 63" "length two_hits \<le> idx_DocCount example_index"
    by (simp_all add: example_index_def two_hits_def)
  from Search_negative_size [OF neg, of example_ext example_index "[]" "''disk''" False 3 "\<lambda>q srt. two_hits"]
    example_index_paginated cnt
  have "Search example_ext example_index [] ''disk'' False 3 (- 1) =
          Inr (map (hit_result example_ext) two_hits, int (length two_hits), None)"
    by blast
  then show ?thesis using example_index_paginated
    by (simp add: two_hits_def hit_result_def fragments_of_def example_ext_def)
qed

end
